theory Spec2Isabelle
  imports Complex_Main "HOL-Library.AList"
begin

section \<open>JavaScript values\<close>

text \<open>
  The frontmatter utilities pass around values of TypeScript type \<open>any\<close>: whatever the
  YAML parser returns, and the plain objects built from it. Strings are lists of
  characters (code units below 256). An object is the list of its own enumerable
  properties in insertion order; its prototype is always \<open>Object.prototype\<close>.
  \<open>JBuiltin n\<close> is the built-in object or function named \<open>n\<close>; such a value is only ever
  met as the value of an inherited property.
\<close>

datatype jsval =
    JNull
  | JBool bool
  | JNum real
  | JNaN
  | JStr string
  | JArr "jsval list"
  | JObj "(string \<times> jsval) list"
  | JBuiltin string

type_synonym jsobj = "(string \<times> jsval) list"

text \<open>An \<open>Error\<close> is modelled by its message; a function that may throw returns a sum.\<close>

type_synonym err = string

definition bind_err :: "err + 'a \<Rightarrow> ('a \<Rightarrow> err + 'b) \<Rightarrow> err + 'b" where
  "bind_err r f = (case r of Inl m \<Rightarrow> Inl m | Inr x \<Rightarrow> f x)"

text \<open>
  \<open>try { body } catch (error) { throw new Error(prefix + error.message) }\<close>
\<close>

definition rethrow :: "string \<Rightarrow> err + 'a \<Rightarrow> err + 'a" where
  "rethrow prefix r = (case r of Inl m \<Rightarrow> Inl (prefix @ m) | Inr x \<Rightarrow> Inr x)"

text \<open>ToBoolean: the falsy values are \<open>null\<close>, \<open>false\<close>, \<open>0\<close>, \<open>NaN\<close> and \<open>""\<close>.\<close>

fun truthy :: "jsval \<Rightarrow> bool" where
  "truthy JNull = False"
| "truthy (JBool b) = b"
| "truthy (JNum x) = (x \<noteq> 0)"
| "truthy JNaN = False"
| "truthy (JStr s) = (s \<noteq> [])"
| "truthy (JArr xs) = True"
| "truthy (JObj ps) = True"
| "truthy (JBuiltin n) = True"

text \<open>\<open>a || b\<close>\<close>

definition js_or :: "jsval \<Rightarrow> jsval \<Rightarrow> jsval" where
  "js_or a b = (if truthy a then a else b)"

text \<open>\<open>String.prototype.trim\<close>: white space and line terminators go from both ends.\<close>

definition is_js_space :: "char \<Rightarrow> bool" where
  "is_js_space c = (c \<in> set [CHR 0x09, CHR 0x0A, CHR 0x0B, CHR 0x0C, CHR 0x0D, CHR 0x20, CHR 0xA0])"

definition trim :: "string \<Rightarrow> string" where
  "trim s = rev (dropWhile is_js_space (rev (dropWhile is_js_space s)))"

text \<open>Decimal numerals, for the index keys of strings and arrays.\<close>

fun string_of_nat :: "nat \<Rightarrow> string" where
  "string_of_nat n =
     (if n < 10 then [char_of (48 + n)]
      else string_of_nat (n div 10) @ [char_of (48 + n mod 10)])"

definition index_keys :: "nat \<Rightarrow> string list" where
  "index_keys n = map string_of_nat [0..<n]"

text \<open>
  The own enumerable string-keyed properties of a value, as object spread
  \<open>{ ...v }\<close> copies them: \<open>null\<close>, booleans and numbers have none, a string and an
  array have their indices.
\<close>

fun own_props :: "jsval \<Rightarrow> jsobj" where
  "own_props (JObj ps) = ps"
| "own_props (JArr xs) = zip (index_keys (length xs)) xs"
| "own_props (JStr s) = zip (index_keys (length s)) (map (\<lambda>c. JStr [c]) s)"
| "own_props v = []"

text \<open>
  \<open>{ ...a, ...b }\<close> defines the properties of \<open>a\<close>, then those of \<open>b\<close>, on a fresh
  object: a key already there keeps its place and takes the new value, a new key goes
  to the end.
\<close>

definition define_props :: "jsobj \<Rightarrow> jsobj \<Rightarrow> jsobj" where
  "define_props obj ps = foldl (\<lambda>acc (k, v). AList.update k v acc) obj ps"

definition spread2 :: "jsval \<Rightarrow> jsval \<Rightarrow> jsobj" where
  "spread2 a b = define_props (define_props [] (own_props a)) (own_props b)"

definition spread1 :: "jsval \<Rightarrow> jsobj" where
  "spread1 a = define_props [] (own_props a)"

text \<open>The string-keyed properties every object inherits from \<open>Object.prototype\<close>.\<close>

definition Object_prototype_names :: "string list" where
  "Object_prototype_names =
     [''constructor'', ''__defineGetter__'', ''__defineSetter__'', ''hasOwnProperty'',
      ''__lookupGetter__'', ''__lookupSetter__'', ''isPrototypeOf'',
      ''propertyIsEnumerable'', ''toString'', ''valueOf'', ''__proto__'',
      ''toLocaleString'']"

definition Array_prototype_names :: "string list" where
  "Array_prototype_names =
     [''length'', ''constructor'', ''at'', ''concat'', ''copyWithin'', ''fill'', ''find'',
      ''findIndex'', ''findLast'', ''findLastIndex'', ''lastIndexOf'', ''pop'', ''push'',
      ''reverse'', ''shift'', ''unshift'', ''slice'', ''sort'', ''splice'', ''includes'',
      ''indexOf'', ''join'', ''keys'', ''entries'', ''values'', ''forEach'', ''filter'',
      ''flat'', ''flatMap'', ''map'', ''every'', ''some'', ''reduce'', ''reduceRight'',
      ''toLocaleString'', ''toString'', ''toReversed'', ''toSorted'', ''toSpliced'',
      ''with'']"

text \<open>
  \<open>key in v\<close>: own or inherited. On a primitive the operator throws a TypeError.
\<close>

definition sq :: string where
  "sq = [CHR 0x27]"

text \<open>How the message prints the primitive; a number is not printed digit by digit.\<close>

definition show_prim :: "jsval \<Rightarrow> string" where
  "show_prim v = (case v of JNull \<Rightarrow> ''null'' | JBool b \<Rightarrow> (if b then ''true'' else ''false'')
                  | JNaN \<Rightarrow> ''NaN'' | JStr s \<Rightarrow> s | _ \<Rightarrow> ''[number]'')"

fun js_in :: "string \<Rightarrow> jsval \<Rightarrow> err + bool" where
  "js_in k (JObj ps) = Inr (k \<in> set (map fst ps) \<or> k \<in> set Object_prototype_names)"
| "js_in k (JArr xs) =
     Inr (k \<in> set (index_keys (length xs)) \<or> k \<in> set Array_prototype_names
          \<or> k \<in> set Object_prototype_names)"
| "js_in k (JBuiltin n) = Inr (k \<in> set Object_prototype_names)"
| "js_in k v =
     Inl (''Cannot use '' @ sq @ ''in'' @ sq @ '' operator to search for '' @ sq @ k @ sq
          @ '' in '' @ show_prim v)"

text \<open>
  \<open>v[key]\<close> on an object or array: the own property if there is one, else the inherited
  built-in.
\<close>

definition inherited :: "string \<Rightarrow> string \<Rightarrow> jsval" where
  "inherited proto k =
     (if k = ''constructor'' then JBuiltin (takeWhile (\<lambda>c. c \<noteq> CHR ''.'') proto)
      else if k = ''__proto__'' then JBuiltin proto
      else JBuiltin (proto @ ''.'' @ k))"

fun js_get :: "jsval \<Rightarrow> string \<Rightarrow> jsval" where
  "js_get (JObj ps) k =
     (case map_of ps k of Some v \<Rightarrow> v | None \<Rightarrow> inherited ''Object.prototype'' k)"
| "js_get (JArr xs) k =
     (case map_of (zip (index_keys (length xs)) xs) k of Some v \<Rightarrow> v
      | None \<Rightarrow> if k = ''length'' then JNum (real (length xs))
                else if k \<in> set Array_prototype_names then inherited ''Array.prototype'' k
                else inherited ''Object.prototype'' k)"
| "js_get v k = inherited ''Object.prototype'' k"

text \<open>
  \<open>obj[key] = v\<close> on a plain object. Assigning to \<open>__proto__\<close> runs the setter inherited
  from \<open>Object.prototype\<close> unless the object has an own property of that name: it creates
  no own property.
\<close>

definition js_set :: "jsobj \<Rightarrow> string \<Rightarrow> jsval \<Rightarrow> jsobj" where
  "js_set obj k v =
     (if k = ''__proto__'' \<and> k \<notin> set (map fst obj) then obj else AList.update k v obj)"

section \<open>Files and external libraries\<close>

text \<open>
  The file system maps a resolved path to the text of the regular file there.
  \<open>fs.readFile\<close> throws when there is none; \<open>fs.writeFile\<close> replaces the text.
\<close>

type_synonym files = "string \<rightharpoonup> string"

definition readFile :: "files \<Rightarrow> string \<Rightarrow> err + string" where
  "readFile fs p =
     (case fs p of None \<Rightarrow> Inl (''ENOENT: no such file or directory, open '' @ sq @ p @ sq)
      | Some c \<Rightarrow> Inr c)"

definition writeFile :: "files \<Rightarrow> string \<Rightarrow> string \<Rightarrow> files" where
  "writeFile fs p c = fs(p \<mapsto> c)"

text \<open>A top-level node of the markdown syntax tree: its \<open>type\<close> and its \<open>value\<close>.\<close>

record mdnode =
  ntype :: string
  nvalue :: string

text \<open>
  The packages the utilities import are parameters of the model:
  \<open>fromMarkdown\<close> and \<open>toMarkdown\<close> (mdast-util-from-markdown and -to-markdown with the
  frontmatter extensions; the tree is its list of children), \<open>parseYaml\<close> and
  \<open>stringifyYaml\<close> (package yaml, the latter with the options the updater passes),
  \<open>generateObject\<close> (the AI client: from the user prompt to the tags of the validated
  response), and the built-ins \<open>JSON.stringify\<close> and \<open>RegExp\<close> (from a pattern source and
  an input to the result of \<open>test\<close>, or the SyntaxError of the constructor).
\<close>

record libs =
  fromMarkdown :: "string \<Rightarrow> err + mdnode list"
  toMarkdown :: "mdnode list \<Rightarrow> err + string"
  parseYaml :: "string \<Rightarrow> err + jsval"
  stringifyYaml :: "jsval \<Rightarrow> err + string"
  generateObject :: "string \<Rightarrow> err + string list"
  JSON_stringify :: "jsval \<Rightarrow> string"
  RegExp_test :: "string \<Rightarrow> string \<Rightarrow> err + bool"

section \<open>MarkdownFrontmatterExtractor\<close>

record extractor =
  filePath :: string
  optFields :: "string list option"

text \<open>The loop over \<open>ast.children\<close> that returns at the first node of type yaml.\<close>

fun first_yaml :: "mdnode list \<Rightarrow> mdnode option" where
  "first_yaml [] = None"
| "first_yaml (n # ns) = (if ntype n = ''yaml'' then Some n else first_yaml ns)"

definition parseFrontmatter :: "libs \<Rightarrow> string \<Rightarrow> err + jsval" where
  "parseFrontmatter L content =
     rethrow ''Failed to parse frontmatter: ''
       (bind_err (fromMarkdown L content) (\<lambda>ast.
          case first_yaml ast of
            Some node \<Rightarrow> bind_err (parseYaml L (nvalue node)) (\<lambda>v. Inr (js_or v (JObj [])))
          | None \<Rightarrow> Inr JNull))"

fun filterFields_loop :: "jsval \<Rightarrow> string list \<Rightarrow> jsobj \<Rightarrow> err + jsobj" where
  "filterFields_loop data [] filtered = Inr filtered"
| "filterFields_loop data (field # rest) filtered =
     bind_err (js_in field data) (\<lambda>present.
       filterFields_loop data rest
         (if present then js_set filtered field (js_get data field) else filtered))"

definition filterFields :: "jsval \<Rightarrow> string list \<Rightarrow> err + jsobj" where
  "filterFields data fs = filterFields_loop data fs []"

text \<open>Method \<open>extract\<close> of the class.\<close>

definition extractor_extract :: "libs \<Rightarrow> extractor \<Rightarrow> files \<Rightarrow> err + jsval" where
  "extractor_extract L e fs =
     rethrow (''Failed to extract frontmatter from '' @ filePath e @ '': '')
       (bind_err (readFile fs (filePath e)) (\<lambda>content.
        bind_err (parseFrontmatter L content) (\<lambda>frontmatterData.
          if \<not> truthy frontmatterData then Inr JNull
          else case optFields e of
                 Some (f # fs') \<Rightarrow>
                   bind_err (filterFields frontmatterData (f # fs')) (\<lambda>r. Inr (JObj r))
               | _ \<Rightarrow> Inr frontmatterData)))"

section \<open>MarkdownFrontmatterUpdater\<close>

record updater =
  ufilePath :: string
  createIfMissing :: bool
  preserveFormatting :: bool

text \<open>The loop that looks for the index of the first node of type yaml.\<close>

fun frontmatterIndex :: "mdnode list \<Rightarrow> nat \<Rightarrow> nat option" where
  "frontmatterIndex [] i = None"
| "frontmatterIndex (n # ns) i =
     (if ntype n = ''yaml'' then Some i else frontmatterIndex ns (Suc i))"

definition updateFrontmatterInContent :: "libs \<Rightarrow> updater \<Rightarrow> string \<Rightarrow> jsval \<Rightarrow> err + string" where
  "updateFrontmatterInContent L u content newFrontmatter =
     rethrow ''Failed to update frontmatter in content: ''
       (bind_err (fromMarkdown L content) (\<lambda>ast.
          case frontmatterIndex ast 0 of
            Some i \<Rightarrow>
              bind_err (stringifyYaml L newFrontmatter) (\<lambda>y.
                toMarkdown L (ast[i := (ast ! i)\<lparr>nvalue := trim y\<rparr>]))
          | None \<Rightarrow>
              if createIfMissing u then
                bind_err (stringifyYaml L newFrontmatter) (\<lambda>y.
                  toMarkdown L (\<lparr>ntype = ''yaml'', nvalue = trim y\<rparr> # ast))
              else Inl ''No frontmatter found and createIfMissing is false''))"

definition extractExistingFrontmatter :: "libs \<Rightarrow> string \<Rightarrow> err + jsval" where
  "extractExistingFrontmatter L content =
     rethrow ''Failed to extract existing frontmatter: ''
       (bind_err (fromMarkdown L content) (\<lambda>ast.
          case first_yaml ast of
            Some node \<Rightarrow> bind_err (parseYaml L (nvalue node)) (\<lambda>v. Inr (js_or v (JObj [])))
          | None \<Rightarrow> Inr JNull))"

text \<open>
  The public operations return the outcome together with the file system they leave.
  A throw before \<open>fs.writeFile\<close> leaves it as it was.
\<close>

definition finish :: "string \<Rightarrow> files \<Rightarrow> string \<Rightarrow> err + string \<Rightarrow> (err + unit) \<times> files" where
  "finish prefix fs p r =
     (case r of Inl m \<Rightarrow> (Inl (prefix @ m), fs) | Inr c \<Rightarrow> (Inr (), writeFile fs p c))"

definition updateFrontmatter :: "libs \<Rightarrow> updater \<Rightarrow> jsobj \<Rightarrow> files \<Rightarrow> (err + unit) \<times> files" where
  "updateFrontmatter L u updates fs =
     finish (''Failed to update frontmatter in '' @ ufilePath u @ '': '') fs (ufilePath u)
       (bind_err (readFile fs (ufilePath u)) (\<lambda>content.
          updateFrontmatterInContent L u content (JObj updates)))"

definition updateFields :: "libs \<Rightarrow> updater \<Rightarrow> jsobj \<Rightarrow> files \<Rightarrow> (err + unit) \<times> files" where
  "updateFields L u fieldUpdates fs =
     finish (''Failed to update fields in '' @ ufilePath u @ '': '') fs (ufilePath u)
       (bind_err (readFile fs (ufilePath u)) (\<lambda>content.
        bind_err (extractExistingFrontmatter L content) (\<lambda>existingFrontmatter.
          updateFrontmatterInContent L u content
            (JObj (spread2 existingFrontmatter (JObj fieldUpdates))))))"

text \<open>\<open>for (const field of fieldsToRemove) delete updatedFrontmatter[field]\<close>\<close>

definition delete_fields :: "string list \<Rightarrow> jsobj \<Rightarrow> jsobj" where
  "delete_fields ks obj = foldl (\<lambda>acc k. AList.delete k acc) obj ks"

definition removeFields :: "libs \<Rightarrow> updater \<Rightarrow> string list \<Rightarrow> files \<Rightarrow> (err + unit) \<times> files" where
  "removeFields L u fieldsToRemove fs =
     (let prefix = ''Failed to remove fields from '' @ ufilePath u @ '': '' in
      case readFile fs (ufilePath u) of
        Inl m \<Rightarrow> (Inl (prefix @ m), fs)
      | Inr content \<Rightarrow>
          (case extractExistingFrontmatter L content of
             Inl m \<Rightarrow> (Inl (prefix @ m), fs)
           | Inr existingFrontmatter \<Rightarrow>
               if \<not> truthy existingFrontmatter then (Inr (), fs)
               else finish prefix fs (ufilePath u)
                      (updateFrontmatterInContent L u content
                         (JObj (delete_fields fieldsToRemove (spread1 existingFrontmatter))))))"

definition getCurrentFrontmatter :: "libs \<Rightarrow> updater \<Rightarrow> files \<Rightarrow> err + jsval" where
  "getCurrentFrontmatter L u fs =
     rethrow (''Failed to read frontmatter from '' @ ufilePath u @ '': '')
       (bind_err (readFile fs (ufilePath u)) (\<lambda>content. extractExistingFrontmatter L content))"

section \<open>GenerativeTags\<close>










text \<open>\<open>s.replace(/c/g, r)\<close> for a single character \<open>c\<close>\<close>

definition replace_all :: "char \<Rightarrow> string \<Rightarrow> string \<Rightarrow> string" where
  "replace_all c r s = concat (map (\<lambda>x. if x = c then r else [x]) s)"

text \<open>
  \<open>matchesGlob\<close> builds the source of a regular expression and tests the file name
  against it; \<open>test\<close> stands for \<open>new RegExp(source).test(input)\<close>.
\<close>

definition regexPattern :: "string \<Rightarrow> string" where
  "regexPattern pattern =
     replace_all (CHR ''?'') ''.''
       (replace_all (CHR ''*'') ''.*''
          (replace_all (CHR ''.'') [CHR 0x5C, CHR ''.''] pattern))"

definition matchesGlob :: "(string \<Rightarrow> string \<Rightarrow> 'r) \<Rightarrow> string \<Rightarrow> string \<Rightarrow> 'r" where
  "matchesGlob test filename pattern = test (''^'' @ regexPattern pattern @ ''$'') filename"








section \<open>Regular expressions\<close>

text \<open>
  \<open>new RegExp(source).test(input)\<close> without flags, for the sources made of pattern
  characters, \<open>.\<close>, escaped syntax characters, the assertions \<open>^\<close> and \<open>$\<close> and the
  quantifiers \<open>*\<close>, \<open>+\<close> and \<open>?\<close> (greedy or lazy). Groups, classes, alternatives,
  braces and the other escapes are outside this fragment: for them the result is
  \<open>None\<close>.
\<close>

datatype re_atom = RChar char | RDot

datatype re_quant = Once | Opt | Star | Plus

datatype re_term = AssertStart | AssertEnd | Rep re_atom re_quant

datatype re_parse = Parsed "re_term list" | SyntaxError string | OutsideFragment

datatype re_state = NoQuant | CanQuant | CanLazy

definition re_syntax_chars :: "char list" where
  "re_syntax_chars = ''^$.*+?()[]{}|/'' @ [CHR 0x5C]"

definition quant_of :: "char \<Rightarrow> re_quant" where
  "quant_of c = (if c = CHR ''*'' then Star else if c = CHR ''+'' then Plus else Opt)"

text \<open>
  The parser reads the source from the left; \<open>acc\<close> holds the terms read so far, the
  last one first, and the state says whether a quantifier may follow.
\<close>

fun re_parse_loop :: "string \<Rightarrow> re_state \<Rightarrow> re_term list \<Rightarrow> re_parse" where
  "re_parse_loop [] st acc = Parsed (rev acc)"
| "re_parse_loop (c # cs) st acc =
     (if c = CHR 0x5C then
        (case cs of
           [] \<Rightarrow> SyntaxError (CHR 0x5C # '' at end of pattern'')
         | d # ds \<Rightarrow>
             if d \<in> set re_syntax_chars then re_parse_loop ds CanQuant (Rep (RChar d) Once # acc)
             else OutsideFragment)
      else if c = CHR ''*'' \<or> c = CHR ''+'' \<or> c = CHR ''?'' then
        (case (st, acc) of
           (CanQuant, Rep a q # acc') \<Rightarrow> re_parse_loop cs CanLazy (Rep a (quant_of c) # acc')
         | (CanLazy, _) \<Rightarrow>
             if c = CHR ''?'' then re_parse_loop cs NoQuant acc
             else SyntaxError ''Nothing to repeat''
         | _ \<Rightarrow> SyntaxError ''Nothing to repeat'')
      else if c = CHR ''^'' then re_parse_loop cs NoQuant (AssertStart # acc)
      else if c = CHR ''$'' then re_parse_loop cs NoQuant (AssertEnd # acc)
      else if c = CHR ''.'' then re_parse_loop cs CanQuant (Rep RDot Once # acc)
      else if c \<in> set ''()[]{}|'' then OutsideFragment
      else re_parse_loop cs CanQuant (Rep (RChar c) Once # acc))"

text \<open>Without the flag \<open>s\<close> the dot matches everything but a line terminator.\<close>

fun atom_matches :: "re_atom \<Rightarrow> char \<Rightarrow> bool" where
  "atom_matches (RChar d) c = (c = d)"
| "atom_matches RDot c = (c \<noteq> CHR 0x0A \<and> c \<noteq> CHR 0x0D)"

text \<open>
  \<open>re_match ts at_start s\<close>: the terms match a prefix of the rest \<open>s\<close> of the input;
  \<open>at_start\<close> says that no character of the input has been passed yet.
\<close>

function re_match :: "re_term list \<Rightarrow> bool \<Rightarrow> string \<Rightarrow> bool" where
  "re_match [] b s = True"
| "re_match (AssertStart # ts) b s = (b \<and> re_match ts b s)"
| "re_match (AssertEnd # ts) b s = (s = [] \<and> re_match ts b s)"
| "re_match (Rep a Once # ts) b [] = False"
| "re_match (Rep a Once # ts) b (c # cs) = (atom_matches a c \<and> re_match ts False cs)"
| "re_match (Rep a Opt # ts) b [] = re_match ts b []"
| "re_match (Rep a Opt # ts) b (c # cs) =
     ((atom_matches a c \<and> re_match ts False cs) \<or> re_match ts b (c # cs))"
| "re_match (Rep a Star # ts) b [] = re_match ts b []"
| "re_match (Rep a Star # ts) b (c # cs) =
     ((atom_matches a c \<and> re_match (Rep a Star # ts) False cs) \<or> re_match ts b (c # cs))"
| "re_match (Rep a Plus # ts) b [] = False"
| "re_match (Rep a Plus # ts) b (c # cs) =
     (atom_matches a c \<and> re_match (Rep a Star # ts) False cs)"
  by pat_completeness auto
termination
  by (relation "measures [\<lambda>(ts, b, s). length s, \<lambda>(ts, b, s). length ts]") auto

text \<open>\<open>test\<close> looks for a match starting at any position of the input.\<close>

fun re_search :: "re_term list \<Rightarrow> bool \<Rightarrow> string \<Rightarrow> bool" where
  "re_search ts b [] = re_match ts b []"
| "re_search ts b (c # cs) = (re_match ts b (c # cs) \<or> re_search ts False cs)"

definition js_RegExp_test :: "string \<Rightarrow> string \<Rightarrow> (err + bool) option" where
  "js_RegExp_test source input =
     (case re_parse_loop source NoQuant [] of
        Parsed ts \<Rightarrow> Some (Inr (re_search ts True input))
      | SyntaxError m \<Rightarrow> Some (Inl (''Invalid regular expression: /'' @ source @ ''/: '' @ m))
      | OutsideFragment \<Rightarrow> None)"

text \<open>
  The glob semantics the specification gives: \<open>*\<close> matches any run of characters,
  \<open>?\<close> any single character, every other character only itself.
\<close>

fun glob_spec :: "string \<Rightarrow> string \<Rightarrow> bool" where
  "glob_spec [] s = (s = [])"
| "glob_spec (p # ps) [] = (p = CHR ''*'' \<and> glob_spec ps [])"
| "glob_spec (p # ps) (c # cs) =
     (if p = CHR ''*'' then glob_spec ps (c # cs) \<or> glob_spec (p # ps) cs
      else if p = CHR ''?'' then glob_spec ps cs
      else p = c \<and> glob_spec ps cs)"

text \<open>
  The characters a glob pattern may hold without meeting the syntax of regular
  expressions, and the term \<open>matchesGlob\<close> makes of each.
\<close>

definition glob_plain :: "char \<Rightarrow> bool" where
  "glob_plain c = (c \<notin> set ''^$+()[]{}|'' \<and> c \<noteq> CHR 0x5C)"

definition glob_term :: "char \<Rightarrow> re_term" where
  "glob_term c =
     (if c = CHR ''*'' then Rep RDot Star
      else if c = CHR ''?'' then Rep RDot Once
      else Rep (RChar c) Once)"

section \<open>Observing the batch run\<close>



section \<open>The document text as the specification reads it\<close>

text \<open>
  The specification speaks of the text after the closing fence of a document. These
  definitions follow its words (sections 4.1 and 6) and serve to state that property;
  no operation of the program uses them. A document begins with a metadata fence when
  its first line is \<open>---\<close> and a later line is \<open>---\<close>; the text between the fences is
  the YAML text, and the text after the closing fence is the content.
\<close>

definition nl :: string where
  "nl = [CHR 0x0A]"

fun split_lines :: "string \<Rightarrow> string list" where
  "split_lines [] = [[]]"
| "split_lines (c # cs) =
     (if c = CHR 0x0A then [] # split_lines cs
      else (case split_lines cs of l # ls \<Rightarrow> (c # l) # ls | [] \<Rightarrow> [[c]]))"

fun join_lines :: "string list \<Rightarrow> string" where
  "join_lines [] = []"
| "join_lines [l] = l"
| "join_lines (l # l' # ls) = l @ CHR 0x0A # join_lines (l' # ls)"

fun closing_fence :: "string list \<Rightarrow> (string list \<times> string list) option" where
  "closing_fence [] = None"
| "closing_fence (l # ls) =
     (if l = ''---'' then Some ([], ls)
      else (case closing_fence ls of None \<Rightarrow> None | Some (ys, rest) \<Rightarrow> Some (l # ys, rest)))"

definition spec_decode :: "string \<Rightarrow> (string \<times> string) option" where
  "spec_decode text =
     (case split_lines text of
        l # ls \<Rightarrow>
          (if l = ''---'' then
             (case closing_fence ls of
                Some (ys, rest) \<Rightarrow> Some (join_lines ys, join_lines rest)
              | None \<Rightarrow> None)
           else None)
      | [] \<Rightarrow> None)"

definition spec_content :: "string \<Rightarrow> string option" where
  "spec_content text = map_option snd (spec_decode text)"

section \<open>Sample inputs\<close>

definition doc_post :: string where
  "doc_post = ''---'' @ nl @ ''title: X'' @ nl @ ''draft: true'' @ nl @ ''---'' @ nl
              @ ''# Hello'' @ nl @ nl @ ''- item''"

definition doc_plain :: string where
  "doc_plain = ''# No Frontmatter Post'' @ nl @ nl @ ''This post has no frontmatter.''"

definition doc_titled :: string where
  "doc_titled = ''---'' @ nl @ ''title: T'' @ nl @ ''---'' @ nl @ ''Text'' @ nl"

definition doc_zero :: string where
  "doc_zero = ''---'' @ nl @ ''0'' @ nl @ ''---'' @ nl @ ''Text'' @ nl"

text \<open>
  Stand-ins for the packages, the AI client and the built-ins on the few texts and
  values of the examples: each entry is what the real function returns there.

  The parser gives the four sample documents their trees; the value of a heading, a
  paragraph or a one-item list stands for its text.
\<close>

definition sample_fromMarkdown :: "string \<Rightarrow> err + mdnode list" where
  "sample_fromMarkdown text =
     (if text = doc_post then
        Inr [\<lparr>ntype = ''yaml'', nvalue = ''title: X'' @ nl @ ''draft: true''\<rparr>,
             \<lparr>ntype = ''heading'', nvalue = ''Hello''\<rparr>,
             \<lparr>ntype = ''list'', nvalue = ''item''\<rparr>]
      else if text = doc_plain then
        Inr [\<lparr>ntype = ''heading'', nvalue = ''No Frontmatter Post''\<rparr>,
             \<lparr>ntype = ''paragraph'', nvalue = ''This post has no frontmatter.''\<rparr>]
      else if text = doc_titled then
        Inr [\<lparr>ntype = ''yaml'', nvalue = ''title: T''\<rparr>, \<lparr>ntype = ''paragraph'', nvalue = ''Text''\<rparr>]
      else if text = doc_zero then
        Inr [\<lparr>ntype = ''yaml'', nvalue = ''0''\<rparr>, \<lparr>ntype = ''paragraph'', nvalue = ''Text''\<rparr>]
      else Inl ''sample_fromMarkdown: text not in the table'')"

text \<open>
  The serializer renders the tree anew: a yaml node between two fence lines, a heading
  of depth one after \<open>#\<close>, a list item after the bullet \<open>*\<close>, a paragraph as its text;
  the blocks are joined by a blank line and the result ends in a line feed.
\<close>

definition sample_render :: "mdnode \<Rightarrow> string" where
  "sample_render n =
     (if ntype n = ''yaml'' then ''---'' @ nl @ nvalue n @ nl @ ''---''
      else if ntype n = ''heading'' then ''# '' @ nvalue n
      else if ntype n = ''list'' then ''* '' @ nvalue n
      else nvalue n)"

fun join_blocks :: "string list \<Rightarrow> string" where
  "join_blocks [] = []"
| "join_blocks [b] = b"
| "join_blocks (b # b' # bs) = b @ nl @ nl @ join_blocks (b' # bs)"

definition sample_toMarkdown :: "mdnode list \<Rightarrow> err + string" where
  "sample_toMarkdown ns = Inr (if ns = [] then [] else join_blocks (map sample_render ns) @ nl)"

definition sample_parseYaml :: "string \<Rightarrow> err + jsval" where
  "sample_parseYaml y =
     (if y = ''title: X'' @ nl @ ''draft: true'' then
        Inr (JObj [(''title'', JStr ''X''), (''draft'', JBool True)])
      else if y = ''title: T'' then Inr (JObj [(''title'', JStr ''T'')])
      else if y = ''null'' then Inr JNull
      else if y = ''false'' then Inr (JBool False)
      else if y = ''0'' then Inr (JNum 0)
      else if y = [] then Inr JNull
      else Inl ''sample_parseYaml: text not in the table'')"

definition sample_stringifyYaml :: "jsval \<Rightarrow> err + string" where
  "sample_stringifyYaml v =
     (if v = JObj [(''title'', JStr ''New'')] then Inr (''title: New'' @ nl)
      else if v = JObj [(''title'', JStr ''X''), (''draft'', JBool False)] then
        Inr (''title: X'' @ nl @ ''draft: false'' @ nl)
      else if v = JObj [(''title'', JStr ''X'')] then Inr (''title: X'' @ nl)
      else if v = JObj [(''title'', JStr ''T''), (''tags'', JArr [JStr ''node'', JStr ''cli''])] then
        Inr (''title: T'' @ nl @ ''tags:'' @ nl @ ''  - node'' @ nl @ ''  - cli'' @ nl)
      else Inl ''sample_stringifyYaml: value not in the table'')"

definition sample_libs :: libs where
  "sample_libs =
     \<lparr>fromMarkdown = sample_fromMarkdown,
      toMarkdown = sample_toMarkdown,
      parseYaml = sample_parseYaml,
      stringifyYaml = sample_stringifyYaml,
      generateObject = (\<lambda>prompt. Inr [''node'', ''cli'']),
      JSON_stringify = (\<lambda>v. ''{}''),
      RegExp_test = (\<lambda>source input.
         case js_RegExp_test source input of
           Some r \<Rightarrow> r
         | None \<Rightarrow> Inl ''sample_libs: pattern outside the fragment'')\<rparr>"

definition sample_updater :: updater where
  "sample_updater = \<lparr>ufilePath = ''/p.md'', createIfMissing = False, preserveFormatting = True\<rparr>"




section \<open>Properties\<close>

subsection \<open>The updater\<close>

lemma frontmatterIndex_None: "frontmatterIndex ast i = None \<longleftrightarrow> first_yaml ast = None"
  by (induction ast arbitrary: i) auto

lemma map_of_define_props:
  "distinct (map fst ps) \<Longrightarrow> map_of (define_props obj ps) = map_of obj ++ map_of ps"
  unfolding define_props_def
proof (induction ps arbitrary: obj)
  case Nil
  then show ?case by simp
next
  case (Cons a ps)
  obtain k v where a: "a = (k, v)" by (cases a)
  from Cons.prems a have k: "k \<notin> fst ` set ps" and d: "distinct (map fst ps)" by auto
  have none: "map_of ps k = None" using k by (simp add: map_of_eq_None_iff)
  have eq: "(map_of obj)(k \<mapsto> v) ++ map_of ps = map_of obj ++ map_of ((k, v) # ps)"
  proof (rule ext)
    fix x
    show "((map_of obj)(k \<mapsto> v) ++ map_of ps) x = (map_of obj ++ map_of ((k, v) # ps)) x"
      using none by (cases "x = k") (simp_all add: map_add_def split: option.splits)
  qed
  have "map_of (foldl (\<lambda>acc (k, v). AList.update k v acc) obj (a # ps))
        = map_of (foldl (\<lambda>acc (k, v). AList.update k v acc) (AList.update k v obj) ps)"
    by (simp add: a)
  also have "\<dots> = map_of (AList.update k v obj) ++ map_of ps"
    by (rule Cons.IH[OF d])
  also have "\<dots> = (map_of obj)(k \<mapsto> v) ++ map_of ps"
    by (simp only: update_conv')
  also have "\<dots> = map_of obj ++ map_of (a # ps)"
    using eq a by simp
  finally show ?case .
qed

lemma distinct_define_props:
  "distinct (map fst obj) \<Longrightarrow> distinct (map fst (define_props obj ps))"
  unfolding define_props_def
  by (induction ps arbitrary: obj) (auto simp: distinct_update split: prod.splits)

lemma map_of_delete_fields:
  "map_of (delete_fields ks obj) = map_of obj |` (- set ks)"
  unfolding delete_fields_def
proof (induction ks arbitrary: obj)
  case Nil
  then show ?case by simp
next
  case (Cons k ks)
  show ?case
    by (simp add: Cons.IH delete_conv' restrict_map_def fun_eq_iff)
qed

text \<open>
  Claim C4. On a document without a metadata block and with \<open>createIfMissing\<close> false,
  \<open>updateFrontmatter\<close> and \<open>updateFields\<close> both throw the error
  ``No frontmatter found and createIfMissing is false'' (wrapped with the operation and the
  path) and leave the file system exactly as it was.
\<close>

theorem missing_frontmatter_fails_without_write:
  assumes "fs (ufilePath u) = Some content"
    and "fromMarkdown L content = Inr ast"
    and "first_yaml ast = None"
    and "\<not> createIfMissing u"
  shows "updateFrontmatter L u updates fs =
           (Inl (''Failed to update frontmatter in '' @ ufilePath u @
                 '': Failed to update frontmatter in content: No frontmatter found and createIfMissing is false''), fs)
       \<and> updateFields L u fieldUpdates fs =
           (Inl (''Failed to update fields in '' @ ufilePath u @
                 '': Failed to update frontmatter in content: No frontmatter found and createIfMissing is false''), fs)"
proof -
  have idx: "frontmatterIndex ast 0 = None" using assms(3) by (simp add: frontmatterIndex_None)
  have inner: "updateFrontmatterInContent L u content v =
      Inl ''Failed to update frontmatter in content: No frontmatter found and createIfMissing is false''" for v
    using assms(2,4) idx by (simp add: updateFrontmatterInContent_def bind_err_def rethrow_def)
  have ex: "extractExistingFrontmatter L content = Inr JNull"
    using assms(2,3) by (simp add: extractExistingFrontmatter_def bind_err_def rethrow_def)
  show ?thesis
    using assms(1) inner ex
    by (simp add: updateFrontmatter_def updateFields_def readFile_def bind_err_def finish_def)
qed


lemma frontmatterIndex_first:
  "frontmatterIndex ast k = Some i \<Longrightarrow>
     k \<le> i \<and> i - k < length ast \<and> first_yaml ast = Some (ast ! (i - k))"
proof (induction ast arbitrary: k)
  case Nil
  then show ?case by simp
next
  case (Cons n ns)
  show ?case
  proof (cases "ntype n = ''yaml''")
    case True
    with Cons.prems show ?thesis by simp
  next
    case False
    with Cons.prems have "frontmatterIndex ns (Suc k) = Some i" by simp
    from Cons.IH[OF this] have "Suc k \<le> i" "i - Suc k < length ns"
      "first_yaml ns = Some (ns ! (i - Suc k))" by auto
    moreover from \<open>Suc k \<le> i\<close> have "i - k = Suc (i - Suc k)" by simp
    ultimately show ?thesis using False by simp
  qed
qed

lemma truthy_js_or: "truthy (js_or v (JObj ps))"
  by (simp add: js_or_def)

lemma js_or_falsy: "\<not> truthy v \<Longrightarrow> js_or v d = d"
  by (simp add: js_or_def)

lemma js_or_obj: "js_or (JObj m) d = JObj m"
  by (simp add: js_or_def)

lemma extractExisting_eq:
  "fromMarkdown L content = Inr ast \<Longrightarrow> first_yaml ast = Some node \<Longrightarrow>
   parseYaml L (nvalue node) = Inr v \<Longrightarrow>
   extractExistingFrontmatter L content = Inr (js_or v (JObj []))"
  by (simp add: extractExistingFrontmatter_def bind_err_def rethrow_def)

lemma parseFrontmatter_eq:
  "fromMarkdown L content = Inr ast \<Longrightarrow> first_yaml ast = Some node \<Longrightarrow>
   parseYaml L (nvalue node) = Inr v \<Longrightarrow>
   parseFrontmatter L content = Inr (js_or v (JObj []))"
  by (simp add: parseFrontmatter_def bind_err_def rethrow_def)

lemma updateInContent_existing:
  "fromMarkdown L content = Inr ast \<Longrightarrow> frontmatterIndex ast 0 = Some i \<Longrightarrow>
   stringifyYaml L v = Inr y \<Longrightarrow>
   toMarkdown L (ast[i := (ast ! i)\<lparr>nvalue := trim y\<rparr>]) = Inr out \<Longrightarrow>
   updateFrontmatterInContent L u content v = Inr out"
  by (simp add: updateFrontmatterInContent_def bind_err_def rethrow_def)

lemma first_yaml_type: "first_yaml ast = Some n \<Longrightarrow> ntype n = ''yaml''"
  by (induction ast) (auto split: if_splits)

text \<open>
  Claim C5. On a document whose metadata block decodes to the mapping \<open>m\<close>,
  \<open>updateFields p\<close> encodes and writes into the metadata block the mapping that looks
  up every key in \<open>p\<close> first and in \<open>m\<close> otherwise: keys of \<open>p\<close> are added or
  overwritten, every other key of \<open>m\<close> keeps its value.
\<close>

theorem updateFields_shallow_merge:
  assumes "fs (ufilePath u) = Some content"
    and "fromMarkdown L content = Inr ast"
    and "frontmatterIndex ast 0 = Some i"
    and "parseYaml L (nvalue (ast ! i)) = Inr (JObj m)"
    and "distinct (map fst m)" and "distinct (map fst p)"
    and "stringifyYaml L (JObj (spread2 (JObj m) (JObj p))) = Inr y"
    and "toMarkdown L (ast[i := (ast ! i)\<lparr>nvalue := trim y\<rparr>]) = Inr out"
  shows "updateFields L u p fs = (Inr (), fs(ufilePath u \<mapsto> out))
       \<and> map_of (spread2 (JObj m) (JObj p)) = map_of m ++ map_of p
       \<and> distinct (map fst (spread2 (JObj m) (JObj p)))"
proof -
  from frontmatterIndex_first[OF assms(3)] have fy: "first_yaml ast = Some (ast ! i)" by simp
  have ex: "extractExistingFrontmatter L content = Inr (JObj m)"
    using extractExisting_eq[OF assms(2) fy assms(4)] by (simp add: js_or_obj)
  have upd: "updateFrontmatterInContent L u content (JObj (spread2 (JObj m) (JObj p))) = Inr out"
    by (rule updateInContent_existing[OF assms(2,3,7,8)])
  have w: "updateFields L u p fs = (Inr (), fs(ufilePath u \<mapsto> out))"
    using assms(1) ex upd
    by (simp add: updateFields_def readFile_def bind_err_def finish_def writeFile_def)
  have "map_of (define_props [] m) = map_of m"
    using map_of_define_props[OF assms(5), of "[]"] by simp
  then have mo: "map_of (spread2 (JObj m) (JObj p)) = map_of m ++ map_of p"
    using map_of_define_props[OF assms(6), of "define_props [] m"] by (simp add: spread2_def)
  have d: "distinct (map fst (spread2 (JObj m) (JObj p)))"
    by (simp add: spread2_def distinct_define_props)
  from w mo d show ?thesis by simp
qed

text \<open>
  Claim C6. On a document without a metadata block \<open>removeFields\<close> returns without an
  error and without writing. On a document whose metadata block decodes to the mapping
  \<open>m\<close> it encodes and writes \<open>m\<close> restricted to the keys that are not in the list;
  a listed key that \<open>m\<close> lacks changes nothing.
\<close>

theorem removeFields_deletes_keys:
  "(fs (ufilePath u) = Some content \<and> fromMarkdown L content = Inr ast \<and> first_yaml ast = None
      \<longrightarrow> removeFields L u ks fs = (Inr (), fs))
   \<and> (fs (ufilePath u) = Some content \<and> fromMarkdown L content = Inr ast
        \<and> frontmatterIndex ast 0 = Some i \<and> parseYaml L (nvalue (ast ! i)) = Inr (JObj m)
        \<and> distinct (map fst m)
        \<and> stringifyYaml L (JObj (delete_fields ks (spread1 (JObj m)))) = Inr y
        \<and> toMarkdown L (ast[i := (ast ! i)\<lparr>nvalue := trim y\<rparr>]) = Inr out
      \<longrightarrow> removeFields L u ks fs = (Inr (), fs(ufilePath u \<mapsto> out))
          \<and> map_of (delete_fields ks (spread1 (JObj m))) = map_of m |` (- set ks))"
proof (intro conjI impI)
  assume a: "fs (ufilePath u) = Some content \<and> fromMarkdown L content = Inr ast \<and> first_yaml ast = None"
  then have "extractExistingFrontmatter L content = Inr JNull"
    by (simp add: extractExistingFrontmatter_def bind_err_def rethrow_def)
  with a show "removeFields L u ks fs = (Inr (), fs)"
    by (simp add: removeFields_def readFile_def)
next
  assume a: "fs (ufilePath u) = Some content \<and> fromMarkdown L content = Inr ast
        \<and> frontmatterIndex ast 0 = Some i \<and> parseYaml L (nvalue (ast ! i)) = Inr (JObj m)
        \<and> distinct (map fst m)
        \<and> stringifyYaml L (JObj (delete_fields ks (spread1 (JObj m)))) = Inr y
        \<and> toMarkdown L (ast[i := (ast ! i)\<lparr>nvalue := trim y\<rparr>]) = Inr out"
  then have fm: "fromMarkdown L content = Inr ast" and ix: "frontmatterIndex ast 0 = Some i"
    and py: "parseYaml L (nvalue (ast ! i)) = Inr (JObj m)"
    and sy: "stringifyYaml L (JObj (delete_fields ks (spread1 (JObj m)))) = Inr y"
    and tm: "toMarkdown L (ast[i := (ast ! i)\<lparr>nvalue := trim y\<rparr>]) = Inr out"
    and rd: "fs (ufilePath u) = Some content" and dm: "distinct (map fst m)"
    by simp_all
  from frontmatterIndex_first[OF ix] have fy: "first_yaml ast = Some (ast ! i)" by simp
  have ex: "extractExistingFrontmatter L content = Inr (JObj m)"
    using extractExisting_eq[OF fm fy py] by (simp add: js_or_obj)
  have upd: "updateFrontmatterInContent L u content (JObj (delete_fields ks (spread1 (JObj m)))) = Inr out"
    by (rule updateInContent_existing[OF fm ix sy tm])
  show "removeFields L u ks fs = (Inr (), fs(ufilePath u \<mapsto> out))"
    using rd ex upd by (simp add: removeFields_def readFile_def finish_def writeFile_def)
  have "map_of (spread1 (JObj m)) = map_of m"
    using map_of_define_props[OF dm, of "[]"] by (simp add: spread1_def)
  then show "map_of (delete_fields ks (spread1 (JObj m))) = map_of m |` (- set ks)"
    by (simp add: map_of_delete_fields)
qed

subsection \<open>The extractor\<close>

lemma filterFields_empty_loop:
  "set fs \<inter> set Object_prototype_names = {} \<Longrightarrow> filterFields_loop (JObj []) fs acc = Inr acc"
  by (induction fs arbitrary: acc) (auto simp: bind_err_def)

text \<open>
  Claim C7. For a readable document that parses, \<open>extract\<close> returns \<open>null\<close> exactly when
  the document has no metadata block (never the empty mapping and never an error in that
  case), and a metadata block that decodes to a mapping is returned as that mapping when
  no field filter is set.
\<close>

theorem extract_null_iff_no_frontmatter:
  assumes "fs (filePath e) = Some content" and "fromMarkdown L content = Inr ast"
  shows "(extractor_extract L e fs = Inr JNull \<longleftrightarrow> first_yaml ast = None)
       \<and> (\<forall>node m. first_yaml ast = Some node \<and> parseYaml L (nvalue node) = Inr (JObj m)
              \<and> (optFields e = None \<or> optFields e = Some [])
            \<longrightarrow> extractor_extract L e fs = Inr (JObj m))"
proof (intro conjI allI impI iffI)
  assume "first_yaml ast = None"
  then have "parseFrontmatter L content = Inr JNull"
    using assms(2) by (simp add: parseFrontmatter_def bind_err_def rethrow_def)
  then show "extractor_extract L e fs = Inr JNull"
    using assms(1) by (simp add: extractor_extract_def readFile_def bind_err_def rethrow_def)
next
  assume r: "extractor_extract L e fs = Inr JNull"
  show "first_yaml ast = None"
  proof (rule ccontr)
    assume "first_yaml ast \<noteq> None"
    then obtain node where n: "first_yaml ast = Some node" by auto
    show False
    proof (cases "parseYaml L (nvalue node)")
      case (Inl m)
      then have "parseFrontmatter L content = Inl (''Failed to parse frontmatter: '' @ m)"
        using assms(2) n by (simp add: parseFrontmatter_def bind_err_def rethrow_def)
      then show False using r assms(1)
        by (simp add: extractor_extract_def readFile_def bind_err_def rethrow_def)
    next
      case (Inr v)
      have pf: "parseFrontmatter L content = Inr (js_or v (JObj []))"
        by (rule parseFrontmatter_eq[OF assms(2) n Inr])
      have t: "truthy (js_or v (JObj []))" by (rule truthy_js_or)
      then have ne: "js_or v (JObj []) \<noteq> JNull" by auto
      show False using r assms(1) pf t ne
        by (auto simp: extractor_extract_def readFile_def bind_err_def rethrow_def
                 split: option.splits list.splits sum.splits)
    qed
  qed
next
  fix node m
  assume a: "first_yaml ast = Some node \<and> parseYaml L (nvalue node) = Inr (JObj m)
              \<and> (optFields e = None \<or> optFields e = Some [])"
  then have pf: "parseFrontmatter L content = Inr (JObj m)"
    using parseFrontmatter_eq[OF assms(2), of node "JObj m"] by (simp add: js_or_obj)
  from a have "optFields e = None \<or> optFields e = Some []" by simp
  then show "extractor_extract L e fs = Inr (JObj m)"
    using assms(1) pf
    by (auto simp: extractor_extract_def readFile_def bind_err_def rethrow_def)
qed

text \<open>
  Claim C10. When the YAML text of the metadata block parses to a falsy value
  (\<open>null\<close>, \<open>false\<close>, \<open>0\<close>, \<open>NaN\<close> or the empty string), \<open>extract\<close> (without a field
  filter, or with one that names no property of \<open>Object.prototype\<close>) and
  \<open>getCurrentFrontmatter\<close> both return the empty mapping.
\<close>

theorem falsy_yaml_is_empty_mapping:
  assumes "fs path = Some content" and "fromMarkdown L content = Inr ast"
    and "first_yaml ast = Some node" and "parseYaml L (nvalue node) = Inr v"
    and "\<not> truthy v"
    and "filePath e = path" and "ufilePath u = path"
    and "\<forall>fs. optFields e = Some fs \<longrightarrow> set fs \<inter> set Object_prototype_names = {}"
  shows "extractor_extract L e fs = Inr (JObj []) \<and> getCurrentFrontmatter L u fs = Inr (JObj [])"
proof
  have pf: "parseFrontmatter L content = Inr (JObj [])"
    using parseFrontmatter_eq[OF assms(2,3,4)] assms(5) by (simp add: js_or_falsy)
  show "extractor_extract L e fs = Inr (JObj [])"
  proof (cases "optFields e")
    case None
    then show ?thesis using assms(1,6) pf
      by (simp add: extractor_extract_def readFile_def bind_err_def rethrow_def)
  next
    case (Some fl)
    with assms(8) have "set fl \<inter> set Object_prototype_names = {}" by simp
    then have "filterFields (JObj []) fl = Inr []"
      by (simp add: filterFields_def filterFields_empty_loop)
    then show ?thesis using assms(1,6) pf Some
      by (cases fl) (simp_all add: extractor_extract_def readFile_def bind_err_def rethrow_def)
  qed
  have "extractExistingFrontmatter L content = Inr (JObj [])"
    using extractExisting_eq[OF assms(2,3,4)] assms(5) by (simp add: js_or_falsy)
  then show "getCurrentFrontmatter L u fs = Inr (JObj [])"
    using assms(1,7) by (simp add: getCurrentFrontmatter_def readFile_def bind_err_def rethrow_def)
qed


subsection \<open>Batch processing\<close>




subsection \<open>Replacing and creating the metadata block\<close>

text \<open>
  Claim C1, as amended. On a document whose tree has a metadata node,
  \<open>updateFrontmatter\<close> changes the value of that node, the first of type yaml, to the
  trimmed encoding of the new mapping and nothing else in the tree: the nodes before it
  and the nodes after it are handed to the serializer as the parser gave them, and the
  file written is the serializer's rendering of that tree. This holds for any packages.
\<close>

theorem updateFrontmatter_replaces_only_yaml_node:
  assumes "fs (ufilePath u) = Some content"
    and "fromMarkdown L content = Inr ast"
    and "frontmatterIndex ast 0 = Some i"
    and "stringifyYaml L (JObj new) = Inr y"
    and "toMarkdown L (ast[i := (ast ! i)\<lparr>nvalue := trim y\<rparr>]) = Inr out"
  shows "updateFrontmatter L u new fs = (Inr (), fs(ufilePath u \<mapsto> out))
       \<and> first_yaml ast = Some (ast ! i)
       \<and> take i (ast[i := (ast ! i)\<lparr>nvalue := trim y\<rparr>]) = take i ast
       \<and> drop (Suc i) (ast[i := (ast ! i)\<lparr>nvalue := trim y\<rparr>]) = drop (Suc i) ast
       \<and> ntype ((ast[i := (ast ! i)\<lparr>nvalue := trim y\<rparr>]) ! i) = ''yaml''
       \<and> nvalue ((ast[i := (ast ! i)\<lparr>nvalue := trim y\<rparr>]) ! i) = trim y"
proof -
  from frontmatterIndex_first[OF assms(3)]
  have i: "i < length ast" and fy: "first_yaml ast = Some (ast ! i)" by simp_all
  have ty: "ntype (ast ! i) = ''yaml''" using fy by (rule first_yaml_type)
  have "updateFrontmatterInContent L u content (JObj new) = Inr out"
    by (rule updateInContent_existing[OF assms(2,3,4,5)])
  then have w: "updateFrontmatter L u new fs = (Inr (), fs(ufilePath u \<mapsto> out))"
    using assms(1) by (simp add: updateFrontmatter_def readFile_def bind_err_def finish_def writeFile_def)
  from w fy i ty show ?thesis by simp
qed

text \<open>
  Claim C1, as stated, fails: on the sample post the serializer renders the heading and
  the list anew, so the text after the closing fence of the file written (a blank line,
  the heading, the list with the bullet \<open>*\<close>, a final line feed) is not the text that
  followed the closing fence before.
\<close>

theorem updateFrontmatter_content_not_verbatim:
  "spec_content doc_post = Some (''# Hello'' @ nl @ nl @ ''- item'')
   \<and> updateFrontmatter sample_libs sample_updater [(''title'', JStr ''New'')] [''/p.md'' \<mapsto> doc_post]
       = (Inr (), [''/p.md'' \<mapsto> ''---'' @ nl @ ''title: New'' @ nl @ ''---'' @ nl @ nl
                                   @ ''# Hello'' @ nl @ nl @ ''* item'' @ nl])
   \<and> spec_content (''---'' @ nl @ ''title: New'' @ nl @ ''---'' @ nl @ nl
                      @ ''# Hello'' @ nl @ nl @ ''* item'' @ nl)
       = Some (nl @ ''# Hello'' @ nl @ nl @ ''* item'' @ nl)
   \<and> nl @ ''# Hello'' @ nl @ nl @ ''* item'' @ nl \<noteq> ''# Hello'' @ nl @ nl @ ''- item''"
  by (simp add: spec_content_def spec_decode_def updateFrontmatter_def
        updateFrontmatterInContent_def sample_libs_def sample_fromMarkdown_def
        sample_toMarkdown_def sample_render_def sample_stringifyYaml_def sample_updater_def
        doc_post_def readFile_def writeFile_def bind_err_def rethrow_def finish_def trim_def
        is_js_space_def nl_def)



subsection \<open>Glob matching\<close>

lemma regexPattern_Nil: "regexPattern [] = []"
  by (simp add: regexPattern_def replace_all_def)

lemma regexPattern_Cons:
  "regexPattern (c # p) =
     (if c = CHR ''.'' then [CHR 0x5C, CHR ''.'']
      else if c = CHR ''*'' then ''.*''
      else if c = CHR ''?'' then ''.''
      else [c]) @ regexPattern p"
  by (simp add: regexPattern_def replace_all_def)

lemma parse_regexPattern:
  "\<forall>c\<in>set p. glob_plain c \<Longrightarrow>
   re_parse_loop (regexPattern p @ ''$'') st acc = Parsed (rev acc @ map glob_term p @ [AssertEnd])"
proof (induction p arbitrary: st acc)
  case Nil
  then show ?case by (simp add: regexPattern_Nil)
next
  case (Cons c p)
  then have IH: "\<And>st acc. re_parse_loop (regexPattern p @ ''$'') st acc
                   = Parsed (rev acc @ map glob_term p @ [AssertEnd])"
    and pl: "glob_plain c" by simp_all
  show ?case
    using pl
    by (simp add: regexPattern_Cons IH glob_term_def glob_plain_def re_syntax_chars_def quant_of_def)
qed

lemma re_search_start_False: "re_search (AssertStart # ts) False s = False"
  by (induction s) auto

lemma re_search_start: "re_search (AssertStart # ts) True s = re_match ts True s"
  by (cases s) (auto simp: re_search_start_False)

lemma re_match_glob:
  "\<forall>c\<in>set s. c \<noteq> CHR 0x0A \<and> c \<noteq> CHR 0x0D \<Longrightarrow>
   re_match (map glob_term p @ [AssertEnd]) b s = glob_spec p s"
proof (induction p s arbitrary: b rule: glob_spec.induct)
  case (1 s)
  then show ?case by simp
next
  case (2 p ps)
  then show ?case by (simp add: glob_term_def)
next
  case (3 p ps c cs)
  then show ?case by (auto simp: glob_term_def)
qed

lemma matchesGlob_plain_pattern:
  assumes "\<forall>c\<in>set pattern. glob_plain c"
    and "\<forall>c\<in>set filename. c \<noteq> CHR 0x0A \<and> c \<noteq> CHR 0x0D"
  shows "matchesGlob js_RegExp_test filename pattern = Some (Inr (glob_spec pattern filename))"
proof -
  have "re_parse_loop (''^'' @ regexPattern pattern @ ''$'') NoQuant []
          = Parsed (AssertStart # map glob_term pattern @ [AssertEnd])"
    using parse_regexPattern[OF assms(1), of NoQuant "[AssertStart]"] by simp
  then show ?thesis
    by (simp add: matchesGlob_def js_RegExp_test_def re_search_start re_match_glob[OF assms(2)])
qed

text \<open>
  Claim C2. \<open>matchesGlob\<close> escapes only the dot. The pattern \<open>a+.md\<close> does not accept
  the file name \<open>a+.md\<close>, which the glob semantics accepts, and accepts \<open>aa.md\<close>, which
  the glob semantics rejects: \<open>+\<close> reaches the regular expression as a quantifier.
\<close>

theorem matchesGlob_plus_not_literal: "matchesGlob js_RegExp_test ''a+.md'' ''a+.md'' = Some (Inr False)
           \<and> glob_spec ''a+.md'' ''a+.md''
           \<and> matchesGlob js_RegExp_test ''aa.md'' ''a+.md'' = Some (Inr True)
           \<and> \<not> glob_spec ''a+.md'' ''aa.md''"
  by (simp add: matchesGlob_def js_RegExp_test_def regexPattern_def replace_all_def quant_of_def
                re_syntax_chars_def)

subsection \<open>Field projection\<close>

lemma filterFields_loop_own:
  "set fs \<inter> set Object_prototype_names = {} \<Longrightarrow>
   \<exists>r. filterFields_loop (JObj m) fs acc = Inr r
      \<and> map_of r = map_of acc ++ (map_of m |` set fs)"
proof (induction fs arbitrary: acc)
  case Nil
  then show ?case by simp
next
  case (Cons f fs)
  then have nf: "f \<notin> set Object_prototype_names" and rest: "set fs \<inter> set Object_prototype_names = {}"
    by auto
  from nf have np: "f \<noteq> ''__proto__''" by (auto simp: Object_prototype_names_def)
  show ?case
  proof (cases "map_of m f")
    case None
    then have nin: "f \<notin> set (map fst m)" by (simp add: map_of_eq_None_iff)
    from Cons.IH[OF rest, of acc] obtain r where
      r: "filterFields_loop (JObj m) fs acc = Inr r" "map_of r = map_of acc ++ (map_of m |` set fs)"
      by blast
    have "map_of m |` set (f # fs) = map_of m |` set fs"
      using None by (auto simp: restrict_map_def fun_eq_iff)
    with r nin nf show ?thesis by (simp add: bind_err_def)
  next
    case (Some v)
    then have isin: "f \<in> set (map fst m)" by (metis map_of_eq_None_iff option.distinct(1) set_map)
    from Cons.IH[OF rest, of "AList.update f v acc"] obtain r where
      r: "filterFields_loop (JObj m) fs (AList.update f v acc) = Inr r"
         "map_of r = map_of (AList.update f v acc) ++ (map_of m |` set fs)"
      by blast
    have "(map_of acc)(f \<mapsto> v) ++ (map_of m |` set fs) = map_of acc ++ (map_of m |` set (f # fs))"
      using Some by (auto simp: restrict_map_def map_add_def fun_eq_iff split: option.splits)
    with r isin Some np show ?thesis by (simp add: bind_err_def js_set_def update_conv')
  qed
qed

lemma filterFields_own:
  "set fs \<inter> set Object_prototype_names = {} \<Longrightarrow>
   \<exists>r. filterFields (JObj m) fs = Inr r \<and> map_of r = map_of m |` set fs"
  using filterFields_loop_own[of fs m "[]"] by (simp add: filterFields_def)

text \<open>
  Claim C8. \<open>filterFields\<close> tests \<open>field in data\<close>, which also holds for the properties
  inherited from \<open>Object.prototype\<close>: asked for the field \<open>constructor\<close> on a document
  whose mapping has no such key, \<open>extract\<close> returns a mapping with the entry
  \<open>constructor\<close>, which is no entry of the document.
\<close>

theorem filterFields_inherited_constructor:
  assumes "fs (filePath e) = Some content" and "fromMarkdown L content = Inr ast"
    and "first_yaml ast = Some node" and "parseYaml L (nvalue node) = Inr (JObj m)"
    and "map_of m ''constructor'' = None"
    and "optFields e = Some [''constructor'']"
  shows "extractor_extract L e fs = Inr (JObj [(''constructor'', JBuiltin ''Object'')])"
proof -
  have pf: "parseFrontmatter L content = Inr (JObj m)"
    using parseFrontmatter_eq[OF assms(2,3,4)] by (simp add: js_or_obj)
  have "filterFields (JObj m) [''constructor''] = Inr [(''constructor'', JBuiltin ''Object'')]"
    using assms(5)
    by (simp add: filterFields_def bind_err_def Object_prototype_names_def js_set_def inherited_def)
  then show ?thesis using assms(1,6) pf
    by (simp add: extractor_extract_def readFile_def bind_err_def rethrow_def)
qed


subsection \<open>Evaluation on the sample inputs\<close>

lemma sample_libs_simps:
  "fromMarkdown sample_libs = sample_fromMarkdown"
  "toMarkdown sample_libs = sample_toMarkdown"
  "parseYaml sample_libs = sample_parseYaml"
  "stringifyYaml sample_libs = sample_stringifyYaml"
  by (simp_all add: sample_libs_def)

lemma fromMarkdown_doc_plain:
  "fromMarkdown sample_libs doc_plain =
     Inr [\<lparr>ntype = ''heading'', nvalue = ''No Frontmatter Post''\<rparr>,
          \<lparr>ntype = ''paragraph'', nvalue = ''This post has no frontmatter.''\<rparr>]"
  by (simp add: sample_libs_simps sample_fromMarkdown_def doc_plain_def doc_post_def nl_def)

lemma fromMarkdown_doc_post:
  "fromMarkdown sample_libs doc_post =
     Inr [\<lparr>ntype = ''yaml'', nvalue = ''title: X'' @ nl @ ''draft: true''\<rparr>,
          \<lparr>ntype = ''heading'', nvalue = ''Hello''\<rparr>,
          \<lparr>ntype = ''list'', nvalue = ''item''\<rparr>]"
  by (simp add: sample_libs_simps sample_fromMarkdown_def)

lemma fromMarkdown_doc_titled:
  "fromMarkdown sample_libs doc_titled =
     Inr [\<lparr>ntype = ''yaml'', nvalue = ''title: T''\<rparr>, \<lparr>ntype = ''paragraph'', nvalue = ''Text''\<rparr>]"
  by (simp add: sample_libs_simps sample_fromMarkdown_def doc_titled_def doc_plain_def
                doc_post_def nl_def)

lemma fromMarkdown_doc_zero:
  "fromMarkdown sample_libs doc_zero =
     Inr [\<lparr>ntype = ''yaml'', nvalue = ''0''\<rparr>, \<lparr>ntype = ''paragraph'', nvalue = ''Text''\<rparr>]"
  by (simp add: sample_libs_simps sample_fromMarkdown_def doc_zero_def doc_titled_def
                doc_plain_def doc_post_def nl_def)

theorem updateFrontmatter_replaces_only_yaml_node_witness:
  "frontmatterIndex [\<lparr>ntype = ''yaml'', nvalue = ''title: X'' @ nl @ ''draft: true''\<rparr>,
                     \<lparr>ntype = ''heading'', nvalue = ''Hello''\<rparr>,
                     \<lparr>ntype = ''list'', nvalue = ''item''\<rparr>] 0 = Some 0
   \<and> stringifyYaml sample_libs (JObj [(''title'', JStr ''New'')]) = Inr (''title: New'' @ nl)
   \<and> toMarkdown sample_libs [\<lparr>ntype = ''yaml'', nvalue = ''title: New''\<rparr>,
                              \<lparr>ntype = ''heading'', nvalue = ''Hello''\<rparr>,
                              \<lparr>ntype = ''list'', nvalue = ''item''\<rparr>]
       = Inr (''---'' @ nl @ ''title: New'' @ nl @ ''---'' @ nl @ nl
              @ ''# Hello'' @ nl @ nl @ ''* item'' @ nl)
   \<and> updateFrontmatter sample_libs sample_updater [(''title'', JStr ''New'')] [''/p.md'' \<mapsto> doc_post]
       = (Inr (), [''/p.md'' \<mapsto> ''---'' @ nl @ ''title: New'' @ nl @ ''---'' @ nl @ nl
                                   @ ''# Hello'' @ nl @ nl @ ''* item'' @ nl])"
proof -
  let ?fs = "[''/p.md'' \<mapsto> doc_post]"
  let ?y = "\<lparr>ntype = ''yaml'', nvalue = ''title: X'' @ nl @ ''draft: true''\<rparr>"
  let ?h = "\<lparr>ntype = ''heading'', nvalue = ''Hello''\<rparr>"
  let ?l = "\<lparr>ntype = ''list'', nvalue = ''item''\<rparr>"
  let ?out = "''---'' @ nl @ ''title: New'' @ nl @ ''---'' @ nl @ nl @ ''# Hello'' @ nl @ nl @ ''* item'' @ nl"
  have h1: "?fs (ufilePath sample_updater) = Some doc_post" by (simp add: sample_updater_def)
  have h3: "frontmatterIndex [?y, ?h, ?l] 0 = Some 0" by simp
  have h4: "stringifyYaml sample_libs (JObj [(''title'', JStr ''New'')]) = Inr (''title: New'' @ nl)"
    by (simp add: sample_libs_simps sample_stringifyYaml_def)
  have tm: "toMarkdown sample_libs [\<lparr>ntype = ''yaml'', nvalue = ''title: New''\<rparr>, ?h, ?l] = Inr ?out"
    by (simp add: sample_libs_simps sample_toMarkdown_def sample_render_def nl_def)
  have h5: "toMarkdown sample_libs ([?y, ?h, ?l][0 := ([?y, ?h, ?l] ! 0)\<lparr>nvalue := trim (''title: New'' @ nl)\<rparr>])
              = Inr ?out"
    by (simp add: sample_libs_simps sample_toMarkdown_def sample_render_def trim_def
                  is_js_space_def nl_def)
  from updateFrontmatter_replaces_only_yaml_node[where fs="?fs" and u=sample_updater,
         OF h1 fromMarkdown_doc_post h3 h4 h5]
  show ?thesis using h3 h4 tm by (simp add: sample_updater_def)
qed


theorem missing_frontmatter_fails_without_write_witness:
  "first_yaml [\<lparr>ntype = ''heading'', nvalue = ''No Frontmatter Post''\<rparr>,
               \<lparr>ntype = ''paragraph'', nvalue = ''This post has no frontmatter.''\<rparr>] = None
   \<and> \<not> createIfMissing sample_updater
   \<and> updateFrontmatter sample_libs sample_updater [(''title'', JStr ''New'')] [''/p.md'' \<mapsto> doc_plain]
       = (Inl ''Failed to update frontmatter in /p.md: Failed to update frontmatter in content: No frontmatter found and createIfMissing is false'',
          [''/p.md'' \<mapsto> doc_plain])
   \<and> updateFields sample_libs sample_updater [(''draft'', JBool False)] [''/p.md'' \<mapsto> doc_plain]
       = (Inl ''Failed to update fields in /p.md: Failed to update frontmatter in content: No frontmatter found and createIfMissing is false'',
          [''/p.md'' \<mapsto> doc_plain])"
proof -
  let ?fs = "[''/p.md'' \<mapsto> doc_plain]"
  have h1: "?fs (ufilePath sample_updater) = Some doc_plain" by (simp add: sample_updater_def)
  have h3: "first_yaml [\<lparr>ntype = ''heading'', nvalue = ''No Frontmatter Post''\<rparr>,
               \<lparr>ntype = ''paragraph'', nvalue = ''This post has no frontmatter.''\<rparr>] = None" by simp
  have h4: "\<not> createIfMissing sample_updater" by (simp add: sample_updater_def)
  from missing_frontmatter_fails_without_write[where fs="?fs" and u=sample_updater
         and updates="[(''title'', JStr ''New'')]" and fieldUpdates="[(''draft'', JBool False)]",
         OF h1 fromMarkdown_doc_plain h3 h4]
  show ?thesis using h3 h4 by (simp add: sample_updater_def)
qed

theorem updateFields_shallow_merge_witness:
  "frontmatterIndex [\<lparr>ntype = ''yaml'', nvalue = ''title: X'' @ nl @ ''draft: true''\<rparr>,
                     \<lparr>ntype = ''heading'', nvalue = ''Hello''\<rparr>,
                     \<lparr>ntype = ''list'', nvalue = ''item''\<rparr>] 0 = Some 0
   \<and> parseYaml sample_libs (''title: X'' @ nl @ ''draft: true'')
       = Inr (JObj [(''title'', JStr ''X''), (''draft'', JBool True)])
   \<and> spread2 (JObj [(''title'', JStr ''X''), (''draft'', JBool True)]) (JObj [(''draft'', JBool False)])
       = [(''title'', JStr ''X''), (''draft'', JBool False)]
   \<and> updateFields sample_libs sample_updater [(''draft'', JBool False)] [''/p.md'' \<mapsto> doc_post]
       = (Inr (), [''/p.md'' \<mapsto> ''---'' @ nl @ ''title: X'' @ nl @ ''draft: false'' @ nl @ ''---''
                                      @ nl @ nl @ ''# Hello'' @ nl @ nl @ ''* item'' @ nl])
   \<and> map_of (spread2 (JObj [(''title'', JStr ''X''), (''draft'', JBool True)])
                       (JObj [(''draft'', JBool False)]))
       = map_of [(''title'', JStr ''X''), (''draft'', JBool True)] ++ map_of [(''draft'', JBool False)]"
proof -
  let ?fs = "[''/p.md'' \<mapsto> doc_post]"
  let ?y = "\<lparr>ntype = ''yaml'', nvalue = ''title: X'' @ nl @ ''draft: true''\<rparr>"
  let ?c = "\<lparr>ntype = ''heading'', nvalue = ''Hello''\<rparr>"
  let ?l = "\<lparr>ntype = ''list'', nvalue = ''item''\<rparr>"
  let ?m = "[(''title'', JStr ''X''), (''draft'', JBool True)]"
  let ?p = "[(''draft'', JBool False)]"
  let ?out = "''---'' @ nl @ ''title: X'' @ nl @ ''draft: false'' @ nl @ ''---'' @ nl @ nl @ ''# Hello'' @ nl @ nl @ ''* item'' @ nl"
  have h1: "?fs (ufilePath sample_updater) = Some doc_post" by (simp add: sample_updater_def)
  have h3: "frontmatterIndex [?y, ?c, ?l] 0 = Some 0" by simp
  have h4: "parseYaml sample_libs (nvalue ([?y, ?c, ?l] ! 0)) = Inr (JObj ?m)"
    by (simp add: sample_libs_simps sample_parseYaml_def)
  have h5: "distinct (map fst ?m)" by simp
  have h6: "distinct (map fst ?p)" by simp
  have sp: "spread2 (JObj ?m) (JObj ?p) = [(''title'', JStr ''X''), (''draft'', JBool False)]"
    by (simp add: spread2_def define_props_def)
  have h7: "stringifyYaml sample_libs (JObj (spread2 (JObj ?m) (JObj ?p)))
              = Inr (''title: X'' @ nl @ ''draft: false'' @ nl)"
    by (simp add: sp sample_libs_simps sample_stringifyYaml_def)
  have h8: "toMarkdown sample_libs ([?y, ?c, ?l][0 := ([?y, ?c, ?l] ! 0)\<lparr>nvalue := trim (''title: X'' @ nl @ ''draft: false'' @ nl)\<rparr>])
              = Inr ?out"
    by (simp add: sample_libs_simps sample_toMarkdown_def sample_render_def trim_def
                  is_js_space_def nl_def)
  from updateFields_shallow_merge[where fs="?fs" and u=sample_updater, OF h1 fromMarkdown_doc_post h3 h4 h5 h6 h7 h8]
  show ?thesis using h3 h4 sp by (simp add: sample_updater_def)
qed

theorem removeFields_deletes_keys_witness:
  "first_yaml [\<lparr>ntype = ''heading'', nvalue = ''No Frontmatter Post''\<rparr>,
               \<lparr>ntype = ''paragraph'', nvalue = ''This post has no frontmatter.''\<rparr>] = None
   \<and> removeFields sample_libs sample_updater [''draft'', ''tags''] [''/p.md'' \<mapsto> doc_plain]
       = (Inr (), [''/p.md'' \<mapsto> doc_plain])
   \<and> delete_fields [''draft'', ''tags''] (spread1 (JObj [(''title'', JStr ''X''), (''draft'', JBool True)]))
       = [(''title'', JStr ''X'')]
   \<and> removeFields sample_libs sample_updater [''draft'', ''tags''] [''/p.md'' \<mapsto> doc_post]
       = (Inr (), [''/p.md'' \<mapsto> ''---'' @ nl @ ''title: X'' @ nl @ ''---'' @ nl @ nl @ ''# Hello'' @ nl @ nl @ ''* item'' @ nl])
   \<and> map_of (delete_fields [''draft'', ''tags''] (spread1 (JObj [(''title'', JStr ''X''), (''draft'', JBool True)])))
       = map_of [(''title'', JStr ''X''), (''draft'', JBool True)] |` (- set [''draft'', ''tags''])"
proof -
  let ?plain = "[''/p.md'' \<mapsto> doc_plain]"
  let ?fs = "[''/p.md'' \<mapsto> doc_post]"
  let ?y = "\<lparr>ntype = ''yaml'', nvalue = ''title: X'' @ nl @ ''draft: true''\<rparr>"
  let ?c = "\<lparr>ntype = ''heading'', nvalue = ''Hello''\<rparr>"
  let ?l = "\<lparr>ntype = ''list'', nvalue = ''item''\<rparr>"
  let ?m = "[(''title'', JStr ''X''), (''draft'', JBool True)]"
  let ?ks = "[''draft'', ''tags'']"
  let ?out = "''---'' @ nl @ ''title: X'' @ nl @ ''---'' @ nl @ nl @ ''# Hello'' @ nl @ nl @ ''* item'' @ nl"
  have a1: "?plain (ufilePath sample_updater) = Some doc_plain" by (simp add: sample_updater_def)
  have a3: "first_yaml [\<lparr>ntype = ''heading'', nvalue = ''No Frontmatter Post''\<rparr>,
               \<lparr>ntype = ''paragraph'', nvalue = ''This post has no frontmatter.''\<rparr>] = None" by simp
  have b1: "?fs (ufilePath sample_updater) = Some doc_post" by (simp add: sample_updater_def)
  have b3: "frontmatterIndex [?y, ?c, ?l] 0 = Some 0" by simp
  have b4: "parseYaml sample_libs (nvalue ([?y, ?c, ?l] ! 0)) = Inr (JObj ?m)"
    by (simp add: sample_libs_simps sample_parseYaml_def)
  have b5: "distinct (map fst ?m)" by simp
  have df: "delete_fields ?ks (spread1 (JObj ?m)) = [(''title'', JStr ''X'')]"
    by (simp add: delete_fields_def spread1_def define_props_def AList.delete_eq)
  have b6: "stringifyYaml sample_libs (JObj (delete_fields ?ks (spread1 (JObj ?m)))) = Inr (''title: X'' @ nl)"
    by (simp add: df sample_libs_simps sample_stringifyYaml_def)
  have b7: "toMarkdown sample_libs ([?y, ?c, ?l][0 := ([?y, ?c, ?l] ! 0)\<lparr>nvalue := trim (''title: X'' @ nl)\<rparr>]) = Inr ?out"
    by (simp add: sample_libs_simps sample_toMarkdown_def sample_render_def trim_def
                  is_js_space_def nl_def)
  note t = removeFields_deletes_keys[where fs="?plain" and u=sample_updater and content=doc_plain
             and L=sample_libs and ast="[\<lparr>ntype = ''heading'', nvalue = ''No Frontmatter Post''\<rparr>,
               \<lparr>ntype = ''paragraph'', nvalue = ''This post has no frontmatter.''\<rparr>]"
             and ks="?ks"]
  note t' = removeFields_deletes_keys[where fs="?fs" and u=sample_updater and content=doc_post
              and L=sample_libs and ast="[?y, ?c, ?l]" and ks="?ks" and i=0 and m="?m"
              and y="''title: X'' @ nl" and out="?out"]
  from t a1 fromMarkdown_doc_plain a3
  have r0: "removeFields sample_libs sample_updater ?ks ?plain = (Inr (), ?plain)" by blast
  from t' b1 fromMarkdown_doc_post b3 b4 b5 b6 b7
  have r1: "removeFields sample_libs sample_updater ?ks ?fs = (Inr (), ?fs(ufilePath sample_updater \<mapsto> ?out))
          \<and> map_of (delete_fields ?ks (spread1 (JObj ?m))) = map_of ?m |` (- set ?ks)"
    by blast
  from a3 r0 df r1 show ?thesis by (simp add: sample_updater_def)
qed


theorem extract_null_iff_no_frontmatter_witness:
  "first_yaml [\<lparr>ntype = ''heading'', nvalue = ''No Frontmatter Post''\<rparr>,
               \<lparr>ntype = ''paragraph'', nvalue = ''This post has no frontmatter.''\<rparr>] = None
   \<and> extractor_extract sample_libs \<lparr>filePath = ''/p.md'', optFields = None\<rparr> [''/p.md'' \<mapsto> doc_plain]
       = Inr JNull
   \<and> first_yaml [\<lparr>ntype = ''yaml'', nvalue = ''title: T''\<rparr>, \<lparr>ntype = ''paragraph'', nvalue = ''Text''\<rparr>]
       = Some \<lparr>ntype = ''yaml'', nvalue = ''title: T''\<rparr>
   \<and> parseYaml sample_libs ''title: T'' = Inr (JObj [(''title'', JStr ''T'')])
   \<and> extractor_extract sample_libs \<lparr>filePath = ''/p.md'', optFields = None\<rparr> [''/p.md'' \<mapsto> doc_titled]
       = Inr (JObj [(''title'', JStr ''T'')])
   \<and> extractor_extract sample_libs \<lparr>filePath = ''/p.md'', optFields = None\<rparr> [''/p.md'' \<mapsto> doc_titled]
       \<noteq> Inr JNull"
proof -
  let ?e = "\<lparr>filePath = ''/p.md'', optFields = None\<rparr>"
  let ?plain = "[''/p.md'' \<mapsto> doc_plain]"
  let ?titled = "[''/p.md'' \<mapsto> doc_titled]"
  let ?y = "\<lparr>ntype = ''yaml'', nvalue = ''title: T''\<rparr>"
  let ?c = "\<lparr>ntype = ''paragraph'', nvalue = ''Text''\<rparr>"
  have a1: "?plain (filePath ?e) = Some doc_plain" by simp
  have a3: "first_yaml [\<lparr>ntype = ''heading'', nvalue = ''No Frontmatter Post''\<rparr>,
               \<lparr>ntype = ''paragraph'', nvalue = ''This post has no frontmatter.''\<rparr>] = None" by simp
  have b1: "?titled (filePath ?e) = Some doc_titled" by simp
  have b3: "first_yaml [?y, ?c] = Some ?y" by simp
  have b4: "parseYaml sample_libs (nvalue ?y) = Inr (JObj [(''title'', JStr ''T'')])"
    by (simp add: sample_libs_simps sample_parseYaml_def)
  have b5: "optFields ?e = None" by simp
  note t = extract_null_iff_no_frontmatter[where fs="?plain" and e="?e", OF a1 fromMarkdown_doc_plain]
  note t' = extract_null_iff_no_frontmatter[where fs="?titled" and e="?e", OF b1 fromMarkdown_doc_titled]
  from t a3 have r0: "extractor_extract sample_libs ?e ?plain = Inr JNull" by blast
  from t' b3 b4 b5 have r1: "extractor_extract sample_libs ?e ?titled = Inr (JObj [(''title'', JStr ''T'')])"
    by blast
  from t' b3 have r2: "extractor_extract sample_libs ?e ?titled \<noteq> Inr JNull" by simp
  from a3 r0 b3 b4 r1 r2 show ?thesis by simp
qed

theorem filterFields_inherited_constructor_witness:
  "first_yaml [\<lparr>ntype = ''yaml'', nvalue = ''title: T''\<rparr>, \<lparr>ntype = ''paragraph'', nvalue = ''Text''\<rparr>]
       = Some \<lparr>ntype = ''yaml'', nvalue = ''title: T''\<rparr>
   \<and> parseYaml sample_libs ''title: T'' = Inr (JObj [(''title'', JStr ''T'')])
   \<and> map_of [(''title'', JStr ''T'')] ''constructor'' = None
   \<and> extractor_extract sample_libs \<lparr>filePath = ''/p.md'', optFields = Some [''constructor'']\<rparr>
        [''/p.md'' \<mapsto> doc_titled]
       = Inr (JObj [(''constructor'', JBuiltin ''Object'')])"
proof -
  let ?e = "\<lparr>filePath = ''/p.md'', optFields = Some [''constructor'']\<rparr>"
  let ?titled = "[''/p.md'' \<mapsto> doc_titled]"
  let ?y = "\<lparr>ntype = ''yaml'', nvalue = ''title: T''\<rparr>"
  let ?c = "\<lparr>ntype = ''paragraph'', nvalue = ''Text''\<rparr>"
  have b1: "?titled (filePath ?e) = Some doc_titled" by simp
  have b3: "first_yaml [?y, ?c] = Some ?y" by simp
  have b4: "parseYaml sample_libs (nvalue ?y) = Inr (JObj [(''title'', JStr ''T'')])"
    by (simp add: sample_libs_simps sample_parseYaml_def)
  have b5: "map_of [(''title'', JStr ''T'')] ''constructor'' = None" by simp
  have b6: "optFields ?e = Some [''constructor'']" by simp
  from filterFields_inherited_constructor[where fs="?titled" and e="?e",
         OF b1 fromMarkdown_doc_titled b3 b4 b5 b6]
  show ?thesis using b3 b4 b5 by simp
qed

theorem falsy_yaml_is_empty_mapping_witness:
  "first_yaml [\<lparr>ntype = ''yaml'', nvalue = ''0''\<rparr>, \<lparr>ntype = ''paragraph'', nvalue = ''Text''\<rparr>]
       = Some \<lparr>ntype = ''yaml'', nvalue = ''0''\<rparr>
   \<and> parseYaml sample_libs ''0'' = Inr (JNum 0)
   \<and> \<not> truthy (JNum 0)
   \<and> extractor_extract sample_libs \<lparr>filePath = ''/p.md'', optFields = None\<rparr> [''/p.md'' \<mapsto> doc_zero]
       = Inr (JObj [])
   \<and> getCurrentFrontmatter sample_libs sample_updater [''/p.md'' \<mapsto> doc_zero] = Inr (JObj [])"
proof -
  let ?e = "\<lparr>filePath = ''/p.md'', optFields = None\<rparr>"
  let ?zero = "[''/p.md'' \<mapsto> doc_zero]"
  let ?y = "\<lparr>ntype = ''yaml'', nvalue = ''0''\<rparr>"
  let ?c = "\<lparr>ntype = ''paragraph'', nvalue = ''Text''\<rparr>"
  have h1: "?zero ''/p.md'' = Some doc_zero" by simp
  have h3: "first_yaml [?y, ?c] = Some ?y" by simp
  have h4: "parseYaml sample_libs (nvalue ?y) = Inr (JNum 0)"
    by (simp add: sample_libs_simps sample_parseYaml_def)
  have h5: "\<not> truthy (JNum 0)" by simp
  have h6: "filePath ?e = ''/p.md''" by simp
  have h7: "ufilePath sample_updater = ''/p.md''" by (simp add: sample_updater_def)
  have h8: "\<forall>fs. optFields ?e = Some fs \<longrightarrow> set fs \<inter> set Object_prototype_names = {}" by simp
  from falsy_yaml_is_empty_mapping[where fs="?zero" and e="?e" and u=sample_updater,
         OF h1 fromMarkdown_doc_zero h3 h4 h5 h6 h7 h8]
  show ?thesis using h3 h4 h5 by simp
qed





end
